theory Spec2Isabelle
  imports Main
begin

section \<open>JavaScript values\<close>

text \<open>
  The values that travel between the content script and the background page. Numbers are
  restricted to integers (HTTP status codes, counts). An object is an association list of
  its own properties; the first entry for a key is the property's value.
\<close>

datatype jsval =
    JUndefined
  | JNull
  | JBool bool
  | JNum int
  | JStr string
  | JArr "jsval list"
  | JObj "(string \<times> jsval) list"

text \<open>The condition of an \<open>if\<close> and the left operand of \<open>&&\<close>: JavaScript's ToBoolean.\<close>

fun truthy :: "jsval \<Rightarrow> bool" where
  "truthy JUndefined = False"
| "truthy JNull = False"
| "truthy (JBool b) = b"
| "truthy (JNum n) = (n \<noteq> 0)"
| "truthy (JStr s) = (s \<noteq> [])"
| "truthy (JArr xs) = True"
| "truthy (JObj kvs) = True"

text \<open>Decimal digits of a natural number, for ToString on numbers.\<close>

fun digits :: "nat \<Rightarrow> string" where
  "digits n = (if n < 10 then [char_of (48 + n)] else digits (n div 10) @ [char_of (48 + n mod 10)])"

fun intercalate :: "string \<Rightarrow> string list \<Rightarrow> string" where
  "intercalate sep [] = []"
| "intercalate sep [x] = x"
| "intercalate sep (x # y # ys) = x @ sep @ intercalate sep (y # ys)"

text \<open>
  JavaScript's ToString, which the \<open>Error\<close> constructor applies to its argument. Inside
  \<open>Array.prototype.join\<close> the elements \<open>undefined\<close> and \<open>null\<close> become the empty string.
\<close>

fun js_string :: "jsval \<Rightarrow> string" where
  "js_string JUndefined = ''undefined''"
| "js_string JNull = ''null''"
| "js_string (JBool b) = (if b then ''true'' else ''false'')"
| "js_string (JNum n) = (if n < 0 then CHR ''-'' # digits (nat (- n)) else digits (nat n))"
| "js_string (JStr s) = s"
| "js_string (JArr xs) =
     intercalate '','' (map (\<lambda>x. if x = JUndefined \<or> x = JNull then [] else js_string x) xs)"
| "js_string (JObj kvs) = ''[object Object]''"

section \<open>Errors and promises\<close>

text \<open>
  What a rejected promise carries. \<open>Error m r\<close> is an \<open>Error\<close> object with message \<open>m\<close>;
  \<open>r\<close> is its \<open>response\<close> attribute, \<open>None\<close> when the attribute was never assigned.
  \<open>TypeError\<close> is the error the language raises itself (reading a property of
  \<open>undefined\<close>, spreading a value that is not iterable). \<open>Thrown n\<close> is any other
  exception raised by a host function, named \<open>n\<close>. Only \<open>Error\<close> can have a
  \<open>response\<close> attribute.
\<close>

datatype 'r err =
    Error string "'r option"
  | TypeError
  | Thrown string

text \<open>\<open>e.response\<close>, with \<open>None\<close> for \<open>undefined\<close>.\<close>

fun response_of :: "'r err \<Rightarrow> 'r option" where
  "response_of (Error m r) = r"
| "response_of e = None"

text \<open>\<open>e.response = r\<close> on an \<open>Error\<close> object.\<close>

fun set_response :: "'r err \<Rightarrow> 'r \<Rightarrow> 'r err" where
  "set_response (Error m old) r = Error m (Some r)"
| "set_response e r = e"

text \<open>
  A promise is represented by how it ends: it stays pending forever, is fulfilled with a
  value, or is rejected with an error. A promise settles at most once.
\<close>

datatype ('a, 'r) promise =
    Pending
  | Fulfilled 'a
  | Rejected "'r err"

fun settled :: "('a, 'r) promise \<Rightarrow> bool" where
  "settled Pending = False"
| "settled (Fulfilled v) = True"
| "settled (Rejected e) = True"

text \<open>\<open>await\<close> / \<open>.then(f)\<close>: continue with the fulfilled value, pass everything else on.\<close>

fun then_promise :: "('a, 'r) promise \<Rightarrow> ('a \<Rightarrow> ('b, 'r) promise) \<Rightarrow> ('b, 'r) promise" where
  "then_promise Pending f = Pending"
| "then_promise (Fulfilled v) f = f v"
| "then_promise (Rejected e) f = Rejected e"

text \<open>The completion of a synchronous computation inside an \<open>async\<close> function.\<close>

fun complete :: "'r err + 'a \<Rightarrow> ('a, 'r) promise" where
  "complete (Inl e) = Rejected e"
| "complete (Inr v) = Fulfilled v"

section \<open>Property access, spread and construction\<close>

text \<open>
  The value of the own property \<open>k\<close> of an object, \<open>undefined\<close> when it has none.
  \<open>v.k\<close> for the property names this module reads (\<open>error\<close>, \<open>message\<close>,
  \<open>response\<close>, \<open>data\<close>, \<open>modhash\<close>, \<open>name\<close>). Reading a property of \<open>undefined\<close> or
  \<open>null\<close> raises a TypeError; a missing property reads as \<open>undefined\<close>; primitives and
  arrays have none of these properties.
\<close>

definition property :: "(string \<times> jsval) list \<Rightarrow> string \<Rightarrow> jsval" where
  "property kvs k = (case map_of kvs k of None \<Rightarrow> JUndefined | Some v \<Rightarrow> v)"

fun member :: "jsval \<Rightarrow> string \<Rightarrow> 'r err + jsval" where
  "member JUndefined k = Inl TypeError"
| "member JNull k = Inl TypeError"
| "member (JObj kvs) k = Inr (property kvs k)"
| "member v k = Inr JUndefined"

text \<open>
  \<open>f(...v)\<close>: the elements of an iterable as an argument list. Arrays and strings are
  iterable; spreading anything else raises a TypeError.
\<close>

fun spread_args :: "jsval \<Rightarrow> 'r err + jsval list" where
  "spread_args (JArr xs) = Inr xs"
| "spread_args (JStr s) = Inr (map (\<lambda>c. JStr [c]) s)"
| "spread_args v = Inl TypeError"

text \<open>
  \<open>{..., ...v}\<close>: the own enumerable properties an object literal takes from a spread
  value. \<open>undefined\<close> and \<open>null\<close> contribute nothing. Arrays and strings contribute index
  keys only, which are never among the keys that the request descriptor is read from, so
  they are left out.
\<close>

fun own_properties :: "jsval \<Rightarrow> (string \<times> jsval) list" where
  "own_properties (JObj kvs) = kvs"
| "own_properties v = []"

text \<open>\<open>new Error(m)\<close>: the message is ToString of the argument, empty when it is \<open>undefined\<close>.\<close>

definition new_Error :: "jsval \<Rightarrow> 'r err" where
  "new_Error m = Error (if m = JUndefined then [] else js_string m) None"

section \<open>The request descriptor and the transport message\<close>

text \<open>
  The argument of \<open>sendRequest\<close>, as its parameter list destructures it: six fields, each
  \<open>undefined\<close> when the caller's object does not have it.
\<close>

record descriptor =
  "method" :: jsval
  endpoint :: jsval
  query :: jsval
  body :: jsval
  oauth :: jsval
  okOnly :: jsval

text \<open>The object handed to \<open>browser.runtime.sendMessage\<close>: the six fields and \<open>action\<close>.\<close>

record message = descriptor +
  action :: string

text \<open>Destructuring \<open>{method, endpoint, query, body, oauth, okOnly}\<close> from an object.\<close>

definition destructure :: "(string \<times> jsval) list \<Rightarrow> descriptor" where
  "destructure kvs =
     \<lparr>method = property kvs ''method'', endpoint = property kvs ''endpoint'',
      query = property kvs ''query'', body = property kvs ''body'',
      oauth = property kvs ''oauth'', okOnly = property kvs ''okOnly''\<rparr>"

section \<open>The host and the state it keeps\<close>

text \<open>
  What the module observes of the outside, in the order it happens: messages posted on the
  transport, values handed to the sanitizer, writes to and reads of the durable cache.
\<close>

datatype event =
    Sent message
  | Purified jsval
  | CacheSet string string jsval
  | CacheGet string string

record state =
  trace :: "event list"
  cache :: "string \<times> string \<rightharpoonup> jsval"

fun sent_of :: "event list \<Rightarrow> message list" where
  "sent_of [] = []"
| "sent_of (Sent m # es) = m # sent_of es"
| "sent_of (e # es) = sent_of es"

definition sent :: "state \<Rightarrow> message list" where
  "sent s = sent_of (trace s)"

text \<open>
  The collaborators that are not part of this module.
  \<^item> \<open>sendMessage n m\<close> is how the promise of \<open>browser.runtime.sendMessage(m)\<close> ends when
    \<open>n\<close> messages were posted before it.
  \<^item> \<open>Response args\<close> is \<open>new Response(...args)\<close>, which may throw.
  \<^item> \<open>status r\<close> is \<open>r.status\<close> and \<open>json r\<close> is \<open>r.json()\<close>.
  \<^item> \<open>purifyObject v\<close> is the object \<open>v\<close> after \<open>TBStorage.purifyObject(v)\<close> has
    sanitized it in place; the sanitizer is taken to return normally.
\<close>

record 'r host =
  sendMessage :: "nat \<Rightarrow> message \<Rightarrow> (jsval, 'r) promise"
  Response :: "jsval list \<Rightarrow> 'r err + 'r"
  status :: "'r \<Rightarrow> int"
  json :: "'r \<Rightarrow> (jsval, 'r) promise"
  purifyObject :: "jsval \<Rightarrow> jsval"

text \<open>
  Modelled from the spec: \<open>TBStorage.setCache\<close> and \<open>TBStorage.getCache\<close> are not in the
  source. The spec describes the durable cache as a get/set key-value store keyed by
  (namespace, key) string pairs, whose read may be \<open>undefined\<close> if nothing was stored.
\<close>

definition setCache :: "string \<Rightarrow> string \<Rightarrow> jsval \<Rightarrow> state \<Rightarrow> state" where
  "setCache ns k v s =
     s\<lparr>trace := trace s @ [CacheSet ns k v], cache := (cache s)((ns, k) \<mapsto> v)\<rparr>"

definition getCache :: "string \<Rightarrow> string \<Rightarrow> state \<Rightarrow> jsval \<times> state" where
  "getCache ns k s =
     (case cache s (ns, k) of None \<Rightarrow> JUndefined | Some v \<Rightarrow> v,
      s\<lparr>trace := trace s @ [CacheGet ns k]\<rparr>)"

section \<open>sendRequest\<close>

text \<open>
  The body of \<open>sendRequest\<close> after the reply has arrived: the branch on
  \<open>messageReply.error\<close>, the attachment of \<open>error.response\<close>, and the construction of the
  \<open>Response\<close>.
\<close>

definition handle_reply :: "'r host \<Rightarrow> jsval \<Rightarrow> 'r err + 'r" where
  "handle_reply h messageReply =
     (case member messageReply ''error'' of
        Inl e \<Rightarrow> Inl e
      | Inr err \<Rightarrow>
          if truthy err then
            (case member messageReply ''message'' of
               Inl e \<Rightarrow> Inl e
             | Inr msg \<Rightarrow>
                 (let error = new_Error msg in
                  case member messageReply ''response'' of
                    Inl e \<Rightarrow> Inl e
                  | Inr resp \<Rightarrow>
                      if truthy resp then
                        (case spread_args resp of
                           Inl e \<Rightarrow> Inl e
                         | Inr args \<Rightarrow>
                             (case Response h args of
                                Inl e \<Rightarrow> Inl e
                              | Inr r \<Rightarrow> Inl (set_response error r)))
                      else Inl error))
          else
            (case member messageReply ''response'' of
               Inl e \<Rightarrow> Inl e
             | Inr resp \<Rightarrow>
                 (case spread_args resp of
                    Inl e \<Rightarrow> Inl e
                  | Inr args \<Rightarrow> Response h args)))"

text \<open>
  \<open>sendRequest\<close>: post the message built from the descriptor, wait for the reply, then
  resolve or reject from it. The result is the promise the \<open>async\<close> function returns
  and the state after the message was posted.
\<close>

definition request_message :: "descriptor \<Rightarrow> message" where
  "request_message d =
     \<lparr>method = method d, endpoint = endpoint d, query = query d, body = body d,
      oauth = oauth d, okOnly = okOnly d, action = ''tb-request''\<rparr>"

definition sendRequest :: "'r host \<Rightarrow> descriptor \<Rightarrow> state \<Rightarrow> ('r, 'r) promise \<times> state" where
  "sendRequest h d s =
     (let m = request_message d;
          messageReply = sendMessage h (length (sent s)) m;
          s' = s\<lparr>trace := trace s @ [Sent m]\<rparr>
      in (then_promise messageReply (\<lambda>reply. complete (handle_reply h reply)), s'))"

section \<open>The wrappers\<close>

text \<open>
  A default parameter \<open>p = {}\<close> takes the empty object when the argument is
  \<open>undefined\<close>.
\<close>

definition default_object :: "jsval \<Rightarrow> jsval" where
  "default_object v = (if v = JUndefined then JObj [] else v)"

text \<open>
  An object literal \<open>{k1: v1, ..., kn: vn, ...options}\<close>: a property written later
  replaces an earlier one of the same key, so the spread properties come first in the
  association list.
\<close>

definition object_literal :: "(string \<times> jsval) list \<Rightarrow> jsval \<Rightarrow> (string \<times> jsval) list" where
  "object_literal props options = own_properties options @ props"

definition getJSON :: "'r host \<Rightarrow> jsval \<Rightarrow> jsval \<Rightarrow> jsval \<Rightarrow> state \<Rightarrow> (jsval, 'r) promise \<times> state" where
  "getJSON h ep q options s =
     (let (p, s') = sendRequest h (destructure (object_literal
            [(''okOnly'', JBool True), (''method'', JStr ''GET''), (''endpoint'', ep),
             (''query'', default_object q)] (default_object options))) s
      in (then_promise p (json h), s'))"

definition post :: "'r host \<Rightarrow> jsval \<Rightarrow> jsval \<Rightarrow> jsval \<Rightarrow> state \<Rightarrow> (jsval, 'r) promise \<times> state" where
  "post h ep b options s =
     (let (p, s') = sendRequest h (destructure (object_literal
            [(''okOnly'', JBool True), (''method'', JStr ''POST''), (''endpoint'', ep),
             (''body'', b)] (default_object options))) s
      in (then_promise p (json h), s'))"

definition apiOauthPOST :: "'r host \<Rightarrow> jsval \<Rightarrow> jsval \<Rightarrow> jsval \<Rightarrow> state \<Rightarrow> ('r, 'r) promise \<times> state" where
  "apiOauthPOST h ep b options s =
     sendRequest h (destructure (object_literal
       [(''method'', JStr ''POST''), (''oauth'', JBool True), (''endpoint'', ep),
        (''body'', b), (''okOnly'', JBool True)] (default_object options))) s"

definition apiOauthGET :: "'r host \<Rightarrow> jsval \<Rightarrow> jsval \<Rightarrow> state \<Rightarrow> ('r, 'r) promise \<times> state" where
  "apiOauthGET h ep q s =
     sendRequest h (destructure
       [(''method'', JStr ''GET''), (''oauth'', JBool True), (''endpoint'', ep),
        (''query'', q), (''okOnly'', JBool True)]) s"

definition apiOauthDELETE :: "'r host \<Rightarrow> jsval \<Rightarrow> jsval \<Rightarrow> state \<Rightarrow> ('r, 'r) promise \<times> state" where
  "apiOauthDELETE h ep q s =
     sendRequest h (destructure
       [(''method'', JStr ''DELETE''), (''oauth'', JBool True), (''endpoint'', ep),
        (''query'', q), (''okOnly'', JBool True)]) s"

text \<open>
  The value a wrapper's object literal ends up with under the key \<open>k\<close>: the one that
  \<open>options\<close> defines, and the wrapper's own value \<open>v\<close> when \<open>options\<close> does not define
  the key.
\<close>

definition option_or :: "jsval \<Rightarrow> string \<Rightarrow> jsval \<Rightarrow> jsval" where
  "option_or options k v =
     (case map_of (own_properties (default_object options)) k of None \<Rightarrow> v | Some w \<Rightarrow> w)"

section \<open>The identity fetch\<close>

text \<open>\<open>error.response && error.response.status === 504\<close>.\<close>

definition gateway_timeout :: "'r host \<Rightarrow> 'r err \<Rightarrow> bool" where
  "gateway_timeout h error =
     (case response_of error of None \<Rightarrow> False | Some r \<Rightarrow> status h r = 504)"

text \<open>Whether the \<open>catch\<close> block sees a 504 in the way a \<open>getJSON\<close> promise ended.\<close>

definition ends_504 :: "'r host \<Rightarrow> (jsval, 'r) promise \<Rightarrow> bool" where
  "ends_504 h p = (case p of Rejected error \<Rightarrow> gateway_timeout h error | _ \<Rightarrow> False)"

text \<open>
  \<open>fetchUserDetails (tries = 3)\<close>: the \<open>try\<close> block fetches, sanitizes, stores and
  returns the data; the \<open>catch\<close> block calls the function again on a 504 while
  \<open>tries > 1\<close> and rethrows every other error.
\<close>

function fetchUserDetails :: "'r host \<Rightarrow> int \<Rightarrow> state \<Rightarrow> (jsval, 'r) promise \<times> state" where
  "fetchUserDetails h tries s =
     (case getJSON h (JStr ''/api/me.json'') JUndefined JUndefined s of
        (Pending, s1) \<Rightarrow> (Pending, s1)
      | (Fulfilled data, s1) \<Rightarrow>
          (let data' = purifyObject h data;
               s2 = s1\<lparr>trace := trace s1 @ [Purified data]\<rparr>;
               s3 = setCache ''Utils'' ''userDetails'' data' s2
           in (Fulfilled data', s3))
      | (Rejected error, s1) \<Rightarrow>
          if gateway_timeout h error \<and> tries > 1 then fetchUserDetails h (tries - 1) s1
          else (Rejected error, s1))"
  by pat_completeness auto
termination
  by (relation "measure (\<lambda>(h, tries, s). nat tries)") auto

declare fetchUserDetails.simps [simp del]

text \<open>The message that \<open>getJSON('/api/me.json')\<close> posts.\<close>

definition me_request :: message where
  "me_request =
     \<lparr>method = JStr ''GET'', endpoint = JStr ''/api/me.json'', query = JObj [],
      body = JUndefined, oauth = JUndefined, okOnly = JBool True, action = ''tb-request''\<rparr>"

text \<open>
  The initializer of the module constant \<open>userDetailsPromise\<close>: the call
  \<open>fetchUserDetails()\<close> with the default \<open>tries = 3\<close>, and the \<open>.catch\<close> handler that reads
  the cache.
\<close>

definition userDetailsPromise :: "'r host \<Rightarrow> state \<Rightarrow> (jsval, 'r) promise \<times> state" where
  "userDetailsPromise h s =
     (case fetchUserDetails h 3 s of
        (Rejected error, s1) \<Rightarrow>
          (let (v, s2) = getCache ''Utils'' ''userDetails'' s1 in (Fulfilled v, s2))
      | (p, s1) \<Rightarrow> (p, s1))"

text \<open>
  The module after it has been evaluated: its one constant. Evaluating the module runs the
  initializer, whether or not anything is ever called.
\<close>

record 'r module =
  userDetails :: "(jsval, 'r) promise"

definition load_module :: "'r host \<Rightarrow> state \<Rightarrow> 'r module \<times> state" where
  "load_module h s = (let (p, s') = userDetailsPromise h s in (\<lparr>userDetails = p\<rparr>, s'))"

definition getUserDetails :: "'r module \<Rightarrow> state \<Rightarrow> (jsval, 'r) promise \<times> state" where
  "getUserDetails m s = (userDetails m, s)"

text \<open>\<open>v.k1.k2\<close>, raising where either read raises.\<close>

definition member2 :: "jsval \<Rightarrow> string \<Rightarrow> string \<Rightarrow> 'r err + jsval" where
  "member2 v k1 k2 = (case member v k1 of Inl e \<Rightarrow> Inl e | Inr d \<Rightarrow> member d k2)"

definition getModhash :: "'r module \<Rightarrow> state \<Rightarrow> (jsval, 'r) promise \<times> state" where
  "getModhash m s =
     (let (p, s') = getUserDetails m s
      in (then_promise p (\<lambda>userDetails. complete (member2 userDetails ''data'' ''modhash'')), s'))"

definition getCurrentUser :: "'r module \<Rightarrow> state \<Rightarrow> (jsval, 'r) promise \<times> state" where
  "getCurrentUser m s =
     (let (p, s') = getUserDetails m s
      in (then_promise p (\<lambda>userDetails. complete (member2 userDetails ''data'' ''name'')), s'))"

text \<open>Any sequence of calls of the three identity operations, with what each returned.\<close>

datatype call = GetUserDetails | GetModhash | GetCurrentUser

fun run_call :: "'r module \<Rightarrow> call \<Rightarrow> state \<Rightarrow> (jsval, 'r) promise \<times> state" where
  "run_call m GetUserDetails s = getUserDetails m s"
| "run_call m GetModhash s = getModhash m s"
| "run_call m GetCurrentUser s = getCurrentUser m s"

fun run_calls :: "'r module \<Rightarrow> call list \<Rightarrow> state \<Rightarrow> (jsval, 'r) promise list \<times> state" where
  "run_calls m [] s = ([], s)"
| "run_calls m (c # cs) s =
     (let (p, s1) = run_call m c s; (ps, s2) = run_calls m cs s1 in (p # ps, s2))"

section \<open>A scripted host\<close>

text \<open>
  A small host on which the module can be run: the transport answers the \<open>n\<close>-th message
  with the \<open>n\<close>-th entry of a script and never answers once the script is used up; a
  response is its body and its status; the body is kept already decoded; the sanitizer
  drops the top-level property \<open>script\<close>.
\<close>

datatype resp = Resp jsval int

fun resp_status :: "resp \<Rightarrow> int" where
  "resp_status (Resp b n) = n"

fun resp_json :: "resp \<Rightarrow> (jsval, resp) promise" where
  "resp_json (Resp b n) = Fulfilled b"

fun init_status :: "jsval \<Rightarrow> int" where
  "init_status (JObj kvs) = (case property kvs ''status'' of JNum n \<Rightarrow> n | _ \<Rightarrow> 200)"
| "init_status v = 200"

fun new_resp :: "jsval list \<Rightarrow> resp err + resp" where
  "new_resp [] = Inr (Resp JUndefined 200)"
| "new_resp [b] = Inr (Resp b 200)"
| "new_resp (b # init # rest) =
     (if init_status init < 200 \<or> 599 < init_status init then Inl (Thrown ''RangeError'')
      else Inr (Resp b (init_status init)))"

fun drop_script :: "jsval \<Rightarrow> jsval" where
  "drop_script (JObj kvs) = JObj (filter (\<lambda>kv. fst kv \<noteq> ''script'') kvs)"
| "drop_script v = v"

definition scripted :: "(jsval, resp) promise list \<Rightarrow> resp host" where
  "scripted replies =
     \<lparr>sendMessage = (\<lambda>n m. if n < length replies then replies ! n else Pending),
      Response = new_resp, status = resp_status, json = resp_json,
      purifyObject = drop_script\<rparr>"

definition initial :: state where
  "initial = \<lparr>trace = [], cache = Map.empty\<rparr>"

text \<open>A reply that reports a failed request with HTTP status \<open>n\<close>.\<close>

definition failure_reply :: "int \<Rightarrow> (jsval, resp) promise" where
  "failure_reply n =
     Fulfilled (JObj [(''error'', JBool True), (''message'', JStr ''failed''),
                      (''response'', JArr [JStr ''body'', JObj [(''status'', JNum n)]])])"

text \<open>A reply that reports a successful request with the decoded body \<open>b\<close>.\<close>

definition success_reply :: "jsval \<Rightarrow> (jsval, resp) promise" where
  "success_reply b =
     Fulfilled (JObj [(''response'', JArr [b, JObj [(''status'', JNum 200)]])])"

section \<open>Auxiliary facts\<close>

lemma sent_of_append: "sent_of (xs @ ys) = sent_of xs @ sent_of ys"
  by (induction xs rule: sent_of.induct) simp_all

lemma sendRequest_state:
  "snd (sendRequest h d s) = s\<lparr>trace := trace s @ [Sent (request_message d)]\<rparr>"
  by (simp add: sendRequest_def Let_def)

lemma sendRequest_result:
  "fst (sendRequest h d s) =
     then_promise (sendMessage h (length (sent s)) (request_message d))
       (\<lambda>reply. complete (handle_reply h reply))"
  by (simp add: sendRequest_def Let_def)

lemma settled_then_complete:
  "settled (then_promise p (\<lambda>x. complete (f x))) = settled p"
proof (cases p)
  case (Fulfilled v)
  then show ?thesis by (cases "f v") simp_all
qed simp_all

lemma getJSON_state:
  "snd (getJSON h ep q options s) =
     s\<lparr>trace := trace s @ [Sent (request_message (destructure (object_literal
         [(''okOnly'', JBool True), (''method'', JStr ''GET''), (''endpoint'', ep),
          (''query'', default_object q)] (default_object options))))]\<rparr>"
  by (simp add: getJSON_def split_beta sendRequest_state)

lemma me_request_posted:
  "request_message (destructure (object_literal
     [(''okOnly'', JBool True), (''method'', JStr ''GET''), (''endpoint'', JStr ''/api/me.json''),
      (''query'', default_object JUndefined)] (default_object JUndefined))) = me_request"
  by (simp add: request_message_def destructure_def object_literal_def default_object_def
      property_def me_request_def)

lemma getJSON_me_state:
  "snd (getJSON h (JStr ''/api/me.json'') JUndefined JUndefined s) =
     s\<lparr>trace := trace s @ [Sent me_request]\<rparr>"
  by (simp only: getJSON_state me_request_posted)

lemma getJSON_me_sent:
  "sent (snd (getJSON h (JStr ''/api/me.json'') JUndefined JUndefined s)) = sent s @ [me_request]"
  by (simp add: getJSON_me_state sent_def sent_of_append)

lemma getJSON_me_cache:
  "cache (snd (getJSON h (JStr ''/api/me.json'') JUndefined JUndefined s)) = cache s"
  by (simp add: getJSON_me_state)

lemma fetch_unfold:
  "fetchUserDetails h tries s =
     (let p = fst (getJSON h (JStr ''/api/me.json'') JUndefined JUndefined s);
          s1 = snd (getJSON h (JStr ''/api/me.json'') JUndefined JUndefined s)
      in case p of
           Pending \<Rightarrow> (Pending, s1)
         | Fulfilled data \<Rightarrow>
             (Fulfilled (purifyObject h data),
              setCache ''Utils'' ''userDetails'' (purifyObject h data)
                (s1\<lparr>trace := trace s1 @ [Purified data]\<rparr>))
         | Rejected error \<Rightarrow>
             if gateway_timeout h error \<and> tries > 1 then fetchUserDetails h (tries - 1) s1
             else (Rejected error, s1))"
  by (subst fetchUserDetails.simps) (simp add: split_beta Let_def cong: promise.case_cong)

lemma fetch_retry:
  assumes "ends_504 h (fst (getJSON h (JStr ''/api/me.json'') JUndefined JUndefined s))"
    and "tries > 1"
  shows "fetchUserDetails h tries s =
     fetchUserDetails h (tries - 1) (snd (getJSON h (JStr ''/api/me.json'') JUndefined JUndefined s))"
  using assms
  by (subst fetch_unfold) (simp add: ends_504_def Let_def split: promise.splits)

lemma fetch_rejected_stop:
  assumes "fst (getJSON h (JStr ''/api/me.json'') JUndefined JUndefined s) = Rejected e"
    and "\<not> gateway_timeout h e \<or> tries \<le> 1"
  shows "fetchUserDetails h tries s =
     (Rejected e, snd (getJSON h (JStr ''/api/me.json'') JUndefined JUndefined s))"
  using assms
  by (subst fetch_unfold) (auto simp: Let_def)

lemma fetch_fulfilled:
  assumes "fst (getJSON h (JStr ''/api/me.json'') JUndefined JUndefined s) = Fulfilled data"
  shows "fetchUserDetails h tries s =
     (Fulfilled (purifyObject h data),
      s\<lparr>trace := trace s @ [Sent me_request, Purified data,
                             CacheSet ''Utils'' ''userDetails'' (purifyObject h data)],
        cache := (cache s)((''Utils'', ''userDetails'') \<mapsto> purifyObject h data)\<rparr>)"
  using assms
  by (subst fetch_unfold) (simp add: Let_def setCache_def getJSON_me_state)

lemma fetch_stop_sent:
  assumes "\<not> ends_504 h (fst (getJSON h (JStr ''/api/me.json'') JUndefined JUndefined s)) \<or> tries \<le> 1"
  shows "sent (snd (fetchUserDetails h tries s)) = sent s @ [me_request]"
proof (cases "fst (getJSON h (JStr ''/api/me.json'') JUndefined JUndefined s)")
  case Pending
  then show ?thesis
    by (subst fetch_unfold) (simp add: Let_def getJSON_me_sent)
next
  case (Fulfilled data)
  then show ?thesis
    by (simp add: fetch_fulfilled sent_def sent_of_append)
next
  case (Rejected e)
  with assms have "\<not> gateway_timeout h e \<or> tries \<le> 1"
    by (auto simp: ends_504_def)
  with Rejected show ?thesis
    by (simp add: fetch_rejected_stop getJSON_me_sent)
qed

lemma fetch_three_sent:
  "sent (snd (fetchUserDetails h 3 s)) =
     sent s @ replicate
       (if ends_504 h (fst (getJSON h (JStr ''/api/me.json'') JUndefined JUndefined s))
        then if ends_504 h (fst (getJSON h (JStr ''/api/me.json'') JUndefined JUndefined
                 (snd (getJSON h (JStr ''/api/me.json'') JUndefined JUndefined s))))
             then 3 else 2
        else 1) me_request"
  by (simp add: fetch_retry fetch_stop_sent getJSON_me_sent numeral_3_eq_3 numeral_2_eq_2)

lemma fetch_rejected_cache:
  "fst (fetchUserDetails h tries s) = Rejected e \<Longrightarrow> cache (snd (fetchUserDetails h tries s)) = cache s"
proof (induction h tries s rule: fetchUserDetails.induct)
  case (1 h tries s)
  show ?case
  proof (cases "fst (getJSON h (JStr ''/api/me.json'') JUndefined JUndefined s)")
    case Pending
    with "1.prems" show ?thesis
      by (subst (asm) fetch_unfold) (simp add: Let_def)
  next
    case (Fulfilled data)
    with "1.prems" show ?thesis
      by (simp add: fetch_fulfilled)
  next
    case (Rejected x)
    show ?thesis
    proof (cases "gateway_timeout h x \<and> tries > 1")
      case True
      with Rejected have step: "fetchUserDetails h tries s =
          fetchUserDetails h (tries - 1) (snd (getJSON h (JStr ''/api/me.json'') JUndefined JUndefined s))"
        by (simp add: fetch_retry ends_504_def)
      have "cache (snd (fetchUserDetails h (tries - 1)
              (snd (getJSON h (JStr ''/api/me.json'') JUndefined JUndefined s)))) =
            cache (snd (getJSON h (JStr ''/api/me.json'') JUndefined JUndefined s))"
        using "1.IH"[OF prod.collapse Rejected True] "1.prems" step by simp
      then show ?thesis
        by (simp add: step getJSON_me_cache)
    next
      case False
      then have "\<not> gateway_timeout h x \<or> tries \<le> 1"
        by auto
      from fetch_rejected_stop[OF Rejected this] show ?thesis
        by (simp add: getJSON_me_cache)
    qed
  qed
qed

lemma getJSON_me_result:
  "fst (getJSON h (JStr ''/api/me.json'') JUndefined JUndefined s) =
     then_promise (then_promise (sendMessage h (length (sent s)) me_request)
       (\<lambda>reply. complete (handle_reply h reply))) (json h)"
  by (simp add: getJSON_def split_beta sendRequest_result me_request_posted)

lemma scripted_simps:
  "sendMessage (scripted rs) n m = (if n < length rs then rs ! n else Pending)"
  "Response (scripted rs) = new_resp"
  "status (scripted rs) = resp_status"
  "json (scripted rs) = resp_json"
  "purifyObject (scripted rs) = drop_script"
  by (simp_all add: scripted_def)

lemma failure_reply_handled:
  "handle_reply (scripted rs) (JObj [(''error'', JBool True), (''message'', JStr ''failed''),
      (''response'', JArr [JStr ''body'', JObj [(''status'', JNum n)]])]) =
     (if n < 200 \<or> 599 < n then Inl (Thrown ''RangeError'')
      else Inl (Error ''failed'' (Some (Resp (JStr ''body'') n))))"
  by (simp add: handle_reply_def property_def new_Error_def scripted_simps)

lemma success_reply_handled:
  "handle_reply (scripted rs) (JObj [(''response'', JArr [b, JObj [(''status'', JNum 200)]])]) =
     Inr (Resp b 200)"
  by (simp add: handle_reply_def property_def scripted_simps)

lemma userDetailsPromise_rejected:
  assumes "fst (fetchUserDetails h 3 s) = Rejected e"
  shows "userDetailsPromise h s =
     (Fulfilled (case cache s (''Utils'', ''userDetails'') of None \<Rightarrow> JUndefined | Some v \<Rightarrow> v),
      (snd (fetchUserDetails h 3 s))
        \<lparr>trace := trace (snd (fetchUserDetails h 3 s)) @ [CacheGet ''Utils'' ''userDetails'']\<rparr>)"
proof -
  obtain s1 where run: "fetchUserDetails h 3 s = (Rejected e, s1)"
    using assms by (cases "fetchUserDetails h 3 s") simp
  with fetch_rejected_cache [OF assms] have "cache s1 = cache s"
    by simp
  with run show ?thesis
    by (simp add: userDetailsPromise_def getCache_def)
qed

lemma userDetailsPromise_sent:
  "sent (snd (userDetailsPromise h s)) = sent (snd (fetchUserDetails h 3 s))"
proof (cases "fetchUserDetails h 3 s")
  case (Pair p s1)
  then show ?thesis
    by (cases p) (simp_all add: userDetailsPromise_def getCache_def sent_def sent_of_append)
qed

lemma run_call_state: "snd (run_call m c s) = s"
  by (cases c) (simp_all add: getUserDetails_def getModhash_def getCurrentUser_def)

lemma run_call_result:
  "fst (run_call m c s) =
     (case c of
        GetUserDetails \<Rightarrow> userDetails m
      | GetModhash \<Rightarrow>
          then_promise (userDetails m) (\<lambda>v. complete (member2 v ''data'' ''modhash''))
      | GetCurrentUser \<Rightarrow>
          then_promise (userDetails m) (\<lambda>v. complete (member2 v ''data'' ''name'')))"
  by (cases c) (simp_all add: getUserDetails_def getModhash_def getCurrentUser_def)

lemma run_calls_state: "snd (run_calls m cs s) = s"
proof (induction cs arbitrary: s)
  case Nil
  show ?case by simp
next
  case (Cons c cs)
  have "snd (run_calls m (c # cs) s) = snd (run_calls m cs (snd (run_call m c s)))"
    by (simp add: split_beta)
  then show ?case
    by (simp add: run_call_state Cons.IH)
qed

lemma run_calls_result: "fst (run_calls m cs s) = map (\<lambda>c. fst (run_call m c s)) cs"
proof (induction cs arbitrary: s)
  case Nil
  show ?case by simp
next
  case (Cons c cs)
  have "fst (run_calls m (c # cs) s) =
      fst (run_call m c s) # fst (run_calls m cs (snd (run_call m c s)))"
    by (simp add: split_beta)
  then show ?case
    by (simp add: run_call_state Cons.IH)
qed

lemma property_literal:
  "property (object_literal props (default_object options)) k =
     option_or options k (property props k)"
  by (cases "map_of (own_properties (default_object options)) k")
    (simp_all add: property_def object_literal_def option_or_def map_add_def)

lemma getJSON_sent:
  "sent (snd (getJSON h ep q options s)) =
     sent s @ [\<lparr>method = option_or options ''method'' (JStr ''GET''),
                endpoint = option_or options ''endpoint'' ep,
                query = option_or options ''query'' (default_object q),
                body = option_or options ''body'' JUndefined,
                oauth = option_or options ''oauth'' JUndefined,
                okOnly = option_or options ''okOnly'' (JBool True),
                action = ''tb-request''\<rparr>]"
  by (simp add: getJSON_state sent_def sent_of_append request_message_def destructure_def
      property_literal) (simp add: property_def)

lemma post_sent:
  "sent (snd (post h ep b options s)) =
     sent s @ [\<lparr>method = option_or options ''method'' (JStr ''POST''),
                endpoint = option_or options ''endpoint'' ep,
                query = option_or options ''query'' JUndefined,
                body = option_or options ''body'' b,
                oauth = option_or options ''oauth'' JUndefined,
                okOnly = option_or options ''okOnly'' (JBool True),
                action = ''tb-request''\<rparr>]"
  by (simp add: post_def split_beta sendRequest_state sent_def sent_of_append
      request_message_def destructure_def property_literal) (simp add: property_def)

lemma apiOauthPOST_sent:
  "sent (snd (apiOauthPOST h ep b options s)) =
     sent s @ [\<lparr>method = option_or options ''method'' (JStr ''POST''),
                endpoint = option_or options ''endpoint'' ep,
                query = option_or options ''query'' JUndefined,
                body = option_or options ''body'' b,
                oauth = option_or options ''oauth'' (JBool True),
                okOnly = option_or options ''okOnly'' (JBool True),
                action = ''tb-request''\<rparr>]"
  by (simp add: apiOauthPOST_def sendRequest_state sent_def sent_of_append
      request_message_def destructure_def property_literal) (simp add: property_def)

lemma apiOauthGET_sent:
  "sent (snd (apiOauthGET h ep q s)) =
     sent s @ [\<lparr>method = JStr ''GET'', endpoint = ep, query = q, body = JUndefined,
                oauth = JBool True, okOnly = JBool True, action = ''tb-request''\<rparr>]"
  by (simp add: apiOauthGET_def sendRequest_state sent_def sent_of_append
      request_message_def destructure_def property_def)

lemma apiOauthDELETE_sent:
  "sent (snd (apiOauthDELETE h ep q s)) =
     sent s @ [\<lparr>method = JStr ''DELETE'', endpoint = ep, query = q, body = JUndefined,
                oauth = JBool True, okOnly = JBool True, action = ''tb-request''\<rparr>]"
  by (simp add: apiOauthDELETE_def sendRequest_state sent_def sent_of_append
      request_message_def destructure_def property_def)

lemma getJSON_result:
  "fst (getJSON h ep q options s) =
     then_promise (then_promise
       (sendMessage h (length (sent s)) (last (sent (snd (getJSON h ep q options s)))))
       (\<lambda>reply. complete (handle_reply h reply))) (json h)"
  by (simp add: getJSON_def split_beta sendRequest_result sendRequest_state sent_def
      sent_of_append)

lemma post_result:
  "fst (post h ep b options s) =
     then_promise (then_promise
       (sendMessage h (length (sent s)) (last (sent (snd (post h ep b options s)))))
       (\<lambda>reply. complete (handle_reply h reply))) (json h)"
  by (simp add: post_def split_beta sendRequest_result sendRequest_state sent_def
      sent_of_append)

lemma apiOauthPOST_result:
  "fst (apiOauthPOST h ep b options s) =
     then_promise
       (sendMessage h (length (sent s)) (last (sent (snd (apiOauthPOST h ep b options s)))))
       (\<lambda>reply. complete (handle_reply h reply))"
  by (simp add: apiOauthPOST_def sendRequest_result sendRequest_state sent_def sent_of_append)

lemma apiOauthGET_result:
  "fst (apiOauthGET h ep q s) =
     then_promise
       (sendMessage h (length (sent s)) (last (sent (snd (apiOauthGET h ep q s)))))
       (\<lambda>reply. complete (handle_reply h reply))"
  by (simp add: apiOauthGET_def sendRequest_result sendRequest_state sent_def sent_of_append)

lemma apiOauthDELETE_result:
  "fst (apiOauthDELETE h ep q s) =
     then_promise
       (sendMessage h (length (sent s)) (last (sent (snd (apiOauthDELETE h ep q s)))))
       (\<lambda>reply. complete (handle_reply h reply))"
  by (simp add: apiOauthDELETE_def sendRequest_result sendRequest_state sent_def sent_of_append)

section \<open>The relay\<close>

text \<open>
  Claim C8. For every request descriptor, one call of \<open>sendRequest\<close> appends exactly one
  event to the trace, the posting of one message; that message has the action
  \<open>tb-request\<close> and the six fields of the descriptor, unchanged; the cache is not touched;
  and the promise returned by the call settles exactly when the transport settles its reply
  to that message, so one reply makes the call resolve or reject once.
\<close>

theorem sendRequest_posts_one_message:
  "trace (snd (sendRequest h d s)) =
     trace s @ [Sent \<lparr>method = method d, endpoint = endpoint d, query = query d, body = body d,
                      oauth = oauth d, okOnly = okOnly d, action = ''tb-request''\<rparr>]
   \<and> sent (snd (sendRequest h d s)) =
     sent s @ [\<lparr>method = method d, endpoint = endpoint d, query = query d, body = body d,
                oauth = oauth d, okOnly = okOnly d, action = ''tb-request''\<rparr>]
   \<and> cache (snd (sendRequest h d s)) = cache s
   \<and> settled (fst (sendRequest h d s)) =
       settled (sendMessage h (length (sent s))
         \<lparr>method = method d, endpoint = endpoint d, query = query d, body = body d,
          oauth = oauth d, okOnly = okOnly d, action = ''tb-request''\<rparr>)"
  by (simp add: sendRequest_state sendRequest_result sent_def sent_of_append
      request_message_def settled_then_complete)

theorem sendRequest_posts_one_message_witness:
  "sent (snd (sendRequest (scripted [success_reply (JStr ''ok'')])
      \<lparr>method = JStr ''GET'', endpoint = JStr ''/r/x/about.json'', query = JObj [],
       body = JUndefined, oauth = JBool False, okOnly = JBool True\<rparr> initial)) =
     [\<lparr>method = JStr ''GET'', endpoint = JStr ''/r/x/about.json'', query = JObj [],
       body = JUndefined, oauth = JBool False, okOnly = JBool True, action = ''tb-request''\<rparr>]
   \<and> settled (fst (sendRequest (scripted [success_reply (JStr ''ok'')])
      \<lparr>method = JStr ''GET'', endpoint = JStr ''/r/x/about.json'', query = JObj [],
       body = JUndefined, oauth = JBool False, okOnly = JBool True\<rparr> initial))"
  using sendRequest_posts_one_message [of "scripted [success_reply (JStr ''ok'')]"
      "\<lparr>method = JStr ''GET'', endpoint = JStr ''/r/x/about.json'', query = JObj [],
        body = JUndefined, oauth = JBool False, okOnly = JBool True\<rparr>" initial]
  by (simp add: scripted_def initial_def sent_def success_reply_def)

text \<open>
  Claim C1. When the reply is an object whose \<open>error\<close> is truthy and whose \<open>message\<close> is
  the string \<open>m\<close>, \<open>sendRequest\<close> rejects with an \<open>Error\<close> of message \<open>m\<close>. The error
  has no \<open>response\<close> attribute when the reply has no \<open>response\<close> field, and when the
  reply has a \<open>response\<close> array from whose elements a \<open>Response\<close> is constructed, the
  error's \<open>response\<close> attribute is that \<open>Response\<close>.
\<close>

theorem sendRequest_rejects_on_error:
  assumes reply: "sendMessage h (length (sent s)) (request_message d) = Fulfilled (JObj kvs)"
    and err: "truthy (property kvs ''error'')"
    and msg: "map_of kvs ''message'' = Some (JStr m)"
  shows "(map_of kvs ''response'' = None \<longrightarrow>
            fst (sendRequest h d s) = Rejected (Error m None))
       \<and> (\<forall>args r. map_of kvs ''response'' = Some (JArr args) \<and> Response h args = Inr r \<longrightarrow>
            fst (sendRequest h d s) = Rejected (Error m (Some r)))"
  using assms
  by (auto simp: sendRequest_result handle_reply_def property_def new_Error_def)

theorem sendRequest_rejects_on_error_witness:
  "fst (sendRequest (scripted [failure_reply 404]) (destructure [(''endpoint'', JStr ''/x'')]) initial) =
     Rejected (Error ''failed'' (Some (Resp (JStr ''body'') 404)))
   \<and> fst (sendRequest
        (scripted [Fulfilled (JObj [(''error'', JBool True), (''message'', JStr ''offline'')])])
        (destructure [(''endpoint'', JStr ''/x'')]) initial) =
     Rejected (Error ''offline'' None)"
  using sendRequest_rejects_on_error [of "scripted [failure_reply 404]" initial "destructure [(''endpoint'', JStr ''/x'')]"
      "[(''error'', JBool True), (''message'', JStr ''failed''),
        (''response'', JArr [JStr ''body'', JObj [(''status'', JNum 404)]])]" "''failed''"]
    sendRequest_rejects_on_error [of "scripted [Fulfilled (JObj [(''error'', JBool True), (''message'', JStr ''offline'')])]"
      initial "destructure [(''endpoint'', JStr ''/x'')]"
      "[(''error'', JBool True), (''message'', JStr ''offline'')]" "''offline''"]
  by (simp add: scripted_def initial_def sent_def failure_reply_def property_def)

text \<open>
  Claim C2. When the reply is an object whose \<open>error\<close> is falsy and whose \<open>response\<close> is
  an array, \<open>sendRequest\<close> resolves to the \<open>Response\<close> that the constructor builds from
  exactly the elements of that array.
\<close>

theorem sendRequest_resolves_response:
  assumes reply: "sendMessage h (length (sent s)) (request_message d) = Fulfilled (JObj kvs)"
    and err: "\<not> truthy (property kvs ''error'')"
    and resp: "map_of kvs ''response'' = Some (JArr args)"
    and new: "Response h args = Inr r"
  shows "fst (sendRequest h d s) = Fulfilled r"
  using assms
  by (auto simp: sendRequest_result handle_reply_def property_def)

theorem sendRequest_resolves_response_witness:
  "fst (sendRequest
     (scripted [Fulfilled (JObj [(''error'', JBool False),
        (''response'', JArr [JStr ''hello'', JObj [(''status'', JNum 201)]])])])
     (destructure [(''endpoint'', JStr ''/x'')]) initial) = Fulfilled (Resp (JStr ''hello'') 201)"
  using sendRequest_resolves_response [of "scripted [Fulfilled (JObj [(''error'', JBool False),
        (''response'', JArr [JStr ''hello'', JObj [(''status'', JNum 201)]])])]"
      initial "destructure [(''endpoint'', JStr ''/x'')]"
      "[(''error'', JBool False),
        (''response'', JArr [JStr ''hello'', JObj [(''status'', JNum 201)]])]"
      "[JStr ''hello'', JObj [(''status'', JNum 201)]]" "Resp (JStr ''hello'') 201"]
  by (simp add: scripted_def initial_def sent_def property_def)

text \<open>
  Claim C10. When the reply is an object whose \<open>error\<close> is falsy and that has no
  \<open>response\<close> field, \<open>sendRequest\<close> does not resolve: spreading the absent field raises
  a TypeError and the call rejects with it, whatever the \<open>Response\<close> constructor does.
\<close>

theorem sendRequest_missing_response_rejects:
  assumes reply: "sendMessage h (length (sent s)) (request_message d) = Fulfilled (JObj kvs)"
    and err: "\<not> truthy (property kvs ''error'')"
    and resp: "map_of kvs ''response'' = None"
  shows "fst (sendRequest h d s) = Rejected TypeError"
  using assms
  by (auto simp: sendRequest_result handle_reply_def property_def)

theorem sendRequest_missing_response_rejects_witness:
  "fst (sendRequest (scripted [Fulfilled (JObj [(''error'', JBool False)])])
     (destructure [(''endpoint'', JStr ''/x'')]) initial) = Rejected TypeError"
  using sendRequest_missing_response_rejects [of "scripted [Fulfilled (JObj [(''error'', JBool False)])]"
      initial "destructure [(''endpoint'', JStr ''/x'')]" "[(''error'', JBool False)]"]
  by (simp add: scripted_def initial_def sent_def property_def)

section \<open>The wrappers' messages\<close>

text \<open>
  Claim C6, as stated, asks that \<open>getJSON\<close> posts \<open>okOnly = true\<close> for every \<open>options\<close>
  argument. The object literal spreads \<open>options\<close> last, so \<open>options = {okOnly: false}\<close>
  makes \<open>getJSON\<close> post \<open>okOnly = false\<close>.
\<close>

theorem getJSON_options_override_okOnly:
  "okOnly (last (sent (snd (getJSON (scripted []) (JStr ''/api/info.json'') JUndefined
      (JObj [(''okOnly'', JBool False)]) initial)))) \<noteq> JBool True"
  by (simp add: getJSON_sent option_or_def default_object_def)

text \<open>
  Claim C6, amended. The message a wrapper posts has the values of the contract table as
  defaults: \<open>getJSON\<close> posts method \<open>GET\<close> and \<open>okOnly = true\<close>, \<open>post\<close> posts method
  \<open>POST\<close> and \<open>okOnly = true\<close>, \<open>apiOauthPOST\<close> posts method \<open>POST\<close>, \<open>oauth = true\<close>
  and \<open>okOnly = true\<close>, each in every field that \<open>options\<close> does not define, and a field
  that \<open>options\<close> defines takes the value from \<open>options\<close> (nothing is overridden when
  \<open>options\<close> is omitted or empty). \<open>apiOauthGET\<close> and \<open>apiOauthDELETE\<close> take no options
  and always post their method with \<open>oauth = true\<close> and \<open>okOnly = true\<close>. \<open>getJSON\<close> and
  \<open>post\<close> decode the body of the relay's response as JSON; the three OAuth wrappers return
  the relay's promise as it is.
\<close>

theorem wrappers_post_defaults:
  "sent (snd (getJSON h ep q options s)) =
     sent s @ [\<lparr>method = option_or options ''method'' (JStr ''GET''),
                endpoint = option_or options ''endpoint'' ep,
                query = option_or options ''query'' (default_object q),
                body = option_or options ''body'' JUndefined,
                oauth = option_or options ''oauth'' JUndefined,
                okOnly = option_or options ''okOnly'' (JBool True),
                action = ''tb-request''\<rparr>]
   \<and> sent (snd (post h ep b options s)) =
     sent s @ [\<lparr>method = option_or options ''method'' (JStr ''POST''),
                endpoint = option_or options ''endpoint'' ep,
                query = option_or options ''query'' JUndefined,
                body = option_or options ''body'' b,
                oauth = option_or options ''oauth'' JUndefined,
                okOnly = option_or options ''okOnly'' (JBool True),
                action = ''tb-request''\<rparr>]
   \<and> sent (snd (apiOauthPOST h ep b options s)) =
     sent s @ [\<lparr>method = option_or options ''method'' (JStr ''POST''),
                endpoint = option_or options ''endpoint'' ep,
                query = option_or options ''query'' JUndefined,
                body = option_or options ''body'' b,
                oauth = option_or options ''oauth'' (JBool True),
                okOnly = option_or options ''okOnly'' (JBool True),
                action = ''tb-request''\<rparr>]
   \<and> sent (snd (apiOauthGET h ep q s)) =
     sent s @ [\<lparr>method = JStr ''GET'', endpoint = ep, query = q, body = JUndefined,
                oauth = JBool True, okOnly = JBool True, action = ''tb-request''\<rparr>]
   \<and> sent (snd (apiOauthDELETE h ep q s)) =
     sent s @ [\<lparr>method = JStr ''DELETE'', endpoint = ep, query = q, body = JUndefined,
                oauth = JBool True, okOnly = JBool True, action = ''tb-request''\<rparr>]
   \<and> option_or JUndefined k v = v
   \<and> option_or (JObj []) k v = v
   \<and> fst (getJSON h ep q options s) =
     then_promise (then_promise
       (sendMessage h (length (sent s)) (last (sent (snd (getJSON h ep q options s)))))
       (\<lambda>reply. complete (handle_reply h reply))) (json h)
   \<and> fst (post h ep b options s) =
     then_promise (then_promise
       (sendMessage h (length (sent s)) (last (sent (snd (post h ep b options s)))))
       (\<lambda>reply. complete (handle_reply h reply))) (json h)
   \<and> fst (apiOauthPOST h ep b options s) =
     then_promise
       (sendMessage h (length (sent s)) (last (sent (snd (apiOauthPOST h ep b options s)))))
       (\<lambda>reply. complete (handle_reply h reply))
   \<and> fst (apiOauthGET h ep q s) =
     then_promise
       (sendMessage h (length (sent s)) (last (sent (snd (apiOauthGET h ep q s)))))
       (\<lambda>reply. complete (handle_reply h reply))
   \<and> fst (apiOauthDELETE h ep q s) =
     then_promise
       (sendMessage h (length (sent s)) (last (sent (snd (apiOauthDELETE h ep q s)))))
       (\<lambda>reply. complete (handle_reply h reply))"
proof -
  have "option_or JUndefined k v = v" and "option_or (JObj []) k v = v"
    by (simp_all add: option_or_def default_object_def)
  then show ?thesis
    using getJSON_sent [of h ep q options s] post_sent [of h ep b options s]
      apiOauthPOST_sent [of h ep b options s] apiOauthGET_sent [of h ep q s]
      apiOauthDELETE_sent [of h ep q s]
      getJSON_result [of h ep q options s] post_result [of h ep b options s]
      apiOauthPOST_result [of h ep b options s] apiOauthGET_result [of h ep q s]
      apiOauthDELETE_result [of h ep q s]
    by (simp only: simp_thms)
qed

section \<open>The identity cache\<close>

text \<open>
  Claim C3. Let \<open>p1\<close>, \<open>p2\<close>, \<open>p3\<close> be how the first, second and third \<open>getJSON\<close>
  attempt would end. \<open>fetchUserDetails\<close> posts the identity request once when \<open>p1\<close> is not
  a rejection whose error carries a response of status 504, twice when \<open>p1\<close> is one and
  \<open>p2\<close> is not, and three times when both are, never more. An attempt rejected with any
  other error propagates that error without a further attempt, and after two 504 failures
  whatever error rejects the third attempt propagates, a 504 included.
\<close>

theorem fetchUserDetails_retries_on_504:
  "let g = getJSON h (JStr ''/api/me.json'') JUndefined JUndefined;
       p1 = fst (g s); s1 = snd (g s);
       p2 = fst (g s1); s2 = snd (g s1);
       p3 = fst (g s2); s3 = snd (g s2);
       result = fetchUserDetails h 3 s
   in sent (snd result) =
        sent s @ replicate (if ends_504 h p1 then if ends_504 h p2 then 3 else 2 else 1) me_request
    \<and> (\<forall>e. p1 = Rejected e \<and> \<not> gateway_timeout h e \<longrightarrow> result = (Rejected e, s1))
    \<and> (\<forall>e. ends_504 h p1 \<and> p2 = Rejected e \<and> \<not> gateway_timeout h e \<longrightarrow>
           result = (Rejected e, s2))
    \<and> (\<forall>e. ends_504 h p1 \<and> ends_504 h p2 \<and> p3 = Rejected e \<longrightarrow> result = (Rejected e, s3))"
proof -
  define g where "g = getJSON h (JStr ''/api/me.json'') JUndefined JUndefined"
  have count: "sent (snd (fetchUserDetails h 3 s)) =
      sent s @ replicate (if ends_504 h (fst (g s))
        then if ends_504 h (fst (g (snd (g s)))) then 3 else 2 else 1) me_request"
    unfolding g_def by (rule fetch_three_sent)
  have first: "fetchUserDetails h 3 s = (Rejected e, snd (g s))"
    if "fst (g s) = Rejected e" "\<not> gateway_timeout h e" for e
    using that unfolding g_def by (simp add: fetch_rejected_stop)
  have second: "fetchUserDetails h 3 s = (Rejected e, snd (g (snd (g s))))"
    if "ends_504 h (fst (g s))" "fst (g (snd (g s))) = Rejected e" "\<not> gateway_timeout h e" for e
    using that unfolding g_def by (simp add: fetch_retry fetch_rejected_stop)
  have third: "fetchUserDetails h 3 s = (Rejected e, snd (g (snd (g (snd (g s))))))"
    if "ends_504 h (fst (g s))" "ends_504 h (fst (g (snd (g s))))"
      "fst (g (snd (g (snd (g s))))) = Rejected e" for e
    using that unfolding g_def by (simp add: fetch_retry fetch_rejected_stop)
  show ?thesis
    unfolding Let_def g_def [symmetric]
    using count first second third by blast
qed

theorem fetchUserDetails_retries_on_504_witness:
  "sent (snd (fetchUserDetails
      (scripted [failure_reply 504, failure_reply 504, failure_reply 504, success_reply (JObj [])])
      3 initial)) = [me_request, me_request, me_request]
   \<and> fst (fetchUserDetails
      (scripted [failure_reply 504, failure_reply 504, failure_reply 504, success_reply (JObj [])])
      3 initial) = Rejected (Error ''failed'' (Some (Resp (JStr ''body'') 504)))
   \<and> sent (snd (fetchUserDetails (scripted [failure_reply 500, success_reply (JObj [])])
      3 initial)) = [me_request]
   \<and> fst (fetchUserDetails (scripted [Rejected (Error ''offline'' None), success_reply (JObj [])])
      3 initial) = Rejected (Error ''offline'' None)"
  using fetchUserDetails_retries_on_504 [of "scripted [failure_reply 504, failure_reply 504, failure_reply 504,
      success_reply (JObj [])]" initial]
    fetchUserDetails_retries_on_504 [of "scripted [failure_reply 500, success_reply (JObj [])]" initial]
    fetchUserDetails_retries_on_504 [of "scripted [Rejected (Error ''offline'' None), success_reply (JObj [])]" initial]
  by (simp add: Let_def getJSON_me_result getJSON_me_state sent_def initial_def
      scripted_simps failure_reply_def success_reply_def failure_reply_handled
      ends_504_def gateway_timeout_def)

text \<open>
  Claim C5. When the first \<open>getJSON('/api/me.json')\<close> is fulfilled with \<open>data\<close>, the fetch
  posts that one request only, then hands \<open>data\<close> to the sanitizer, then writes the
  sanitized data to the cache under \<open>('Utils', 'userDetails')\<close>, in this order, and both
  \<open>fetchUserDetails\<close> and the identity promise are fulfilled with the sanitized data.
\<close>

theorem fetchUserDetails_success_stores:
  assumes "fst (getJSON h (JStr ''/api/me.json'') JUndefined JUndefined s) = Fulfilled data"
  shows "fetchUserDetails h 3 s =
           (Fulfilled (purifyObject h data),
            s\<lparr>trace := trace s @ [Sent me_request, Purified data,
                  CacheSet ''Utils'' ''userDetails'' (purifyObject h data)],
              cache := (cache s)((''Utils'', ''userDetails'') \<mapsto> purifyObject h data)\<rparr>)
       \<and> sent (snd (fetchUserDetails h 3 s)) = sent s @ [me_request]
       \<and> userDetailsPromise h s = fetchUserDetails h 3 s"
proof -
  note run = fetch_fulfilled [OF assms, of 3]
  have "sent (snd (fetchUserDetails h 3 s)) = sent s @ [me_request]"
    by (simp add: run sent_def sent_of_append)
  moreover have "userDetailsPromise h s = fetchUserDetails h 3 s"
    by (simp add: userDetailsPromise_def run)
  ultimately show ?thesis
    using run by simp
qed

theorem fetchUserDetails_success_stores_witness:
  "fst (fetchUserDetails
     (scripted [success_reply (JObj [(''script'', JStr ''x''), (''data'', JObj [])])]) 3 initial) =
     Fulfilled (JObj [(''data'', JObj [])])
   \<and> trace (snd (fetchUserDetails
     (scripted [success_reply (JObj [(''script'', JStr ''x''), (''data'', JObj [])])]) 3 initial)) =
     [Sent me_request, Purified (JObj [(''script'', JStr ''x''), (''data'', JObj [])]),
      CacheSet ''Utils'' ''userDetails'' (JObj [(''data'', JObj [])])]
   \<and> cache (snd (fetchUserDetails
     (scripted [success_reply (JObj [(''script'', JStr ''x''), (''data'', JObj [])])]) 3 initial))
       (''Utils'', ''userDetails'') = Some (JObj [(''data'', JObj [])])"
  using fetchUserDetails_success_stores [of "scripted [success_reply (JObj [(''script'', JStr ''x''), (''data'', JObj [])])]"
      initial "JObj [(''script'', JStr ''x''), (''data'', JObj [])]"]
  by (simp add: getJSON_me_result sent_def initial_def scripted_simps success_reply_def
      success_reply_handled)

text \<open>
  Claim C4. When the retry sequence ends rejected, with whatever error, the identity promise
  is fulfilled, not rejected: with the value stored in the cache under
  \<open>('Utils', 'userDetails')\<close>, or \<open>undefined\<close> when nothing is stored there. The read of the
  cache is the last thing the initializer does, and every call of \<open>getUserDetails\<close> on the
  loaded module returns this fulfilled promise.
\<close>

theorem userDetailsPromise_falls_back_to_cache:
  assumes "fst (fetchUserDetails h 3 s) = Rejected e"
  shows "fst (userDetailsPromise h s) =
           Fulfilled (case cache s (''Utils'', ''userDetails'') of None \<Rightarrow> JUndefined | Some v \<Rightarrow> v)
       \<and> trace (snd (userDetailsPromise h s)) =
           trace (snd (fetchUserDetails h 3 s)) @ [CacheGet ''Utils'' ''userDetails'']
       \<and> (\<forall>s'. fst (getUserDetails (fst (load_module h s)) s') =
           Fulfilled (case cache s (''Utils'', ''userDetails'') of None \<Rightarrow> JUndefined | Some v \<Rightarrow> v))"
  by (simp add: userDetailsPromise_rejected [OF assms] load_module_def getUserDetails_def)

theorem userDetailsPromise_falls_back_to_cache_witness:
  "fst (getUserDetails (fst (load_module (scripted [failure_reply 500]) initial)) initial) =
     Fulfilled JUndefined
   \<and> fst (getUserDetails (fst (load_module (scripted [failure_reply 500])
       \<lparr>trace = [], cache = [(''Utils'', ''userDetails'') \<mapsto> JStr ''stored'']\<rparr>)) initial) =
     Fulfilled (JStr ''stored'')"
  using userDetailsPromise_falls_back_to_cache [of "scripted [failure_reply 500]" initial "Error ''failed'' (Some (Resp (JStr ''body'') 500))"]
    userDetailsPromise_falls_back_to_cache [of "scripted [failure_reply 500]"
      "\<lparr>trace = [], cache = [(''Utils'', ''userDetails'') \<mapsto> JStr ''stored'']\<rparr>"
      "Error ''failed'' (Some (Resp (JStr ''body'') 500))"]
  by (simp add: fetch_rejected_stop getJSON_me_result sent_def initial_def scripted_simps
      failure_reply_def failure_reply_handled gateway_timeout_def)

text \<open>
  Claim C9. Loading the module posts the identity request, between one and three times as
  the retries go, before anything is called. The module keeps the promise of that one
  sequence. Any sequence of calls of \<open>getUserDetails\<close>, \<open>getModhash\<close> and
  \<open>getCurrentUser\<close> leaves the state as it was, so no further request is posted, and each
  call answers from that same promise.
\<close>

theorem identity_fetch_shared:
  "sent (snd (load_module h s)) =
     sent s @ replicate
       (if ends_504 h (fst (getJSON h (JStr ''/api/me.json'') JUndefined JUndefined s))
        then if ends_504 h (fst (getJSON h (JStr ''/api/me.json'') JUndefined JUndefined
                 (snd (getJSON h (JStr ''/api/me.json'') JUndefined JUndefined s))))
             then 3 else 2
        else 1) me_request
   \<and> userDetails (fst (load_module h s)) = fst (userDetailsPromise h s)
   \<and> snd (run_calls (fst (load_module h s)) cs s') = s'
   \<and> fst (run_calls (fst (load_module h s)) cs s') =
       map (\<lambda>c. case c of
                  GetUserDetails \<Rightarrow> fst (userDetailsPromise h s)
                | GetModhash \<Rightarrow> then_promise (fst (userDetailsPromise h s))
                    (\<lambda>v. complete (member2 v ''data'' ''modhash''))
                | GetCurrentUser \<Rightarrow> then_promise (fst (userDetailsPromise h s))
                    (\<lambda>v. complete (member2 v ''data'' ''name''))) cs"
proof -
  have m: "userDetails (fst (load_module h s)) = fst (userDetailsPromise h s)"
    by (simp add: load_module_def split_beta)
  have "sent (snd (load_module h s)) = sent (snd (fetchUserDetails h 3 s))"
    by (simp add: load_module_def split_beta userDetailsPromise_sent)
  then show ?thesis
    by (simp add: fetch_three_sent m run_calls_state run_calls_result run_call_result
        cong: call.case_cong)
qed

theorem identity_fetch_shared_witness:
  "sent (snd (load_module (scripted [failure_reply 504, success_reply (JObj [(''data'',
       JObj [(''modhash'', JStr ''abc''), (''name'', JStr ''anna'')])])]) initial)) =
     [me_request, me_request]
   \<and> run_calls (fst (load_module (scripted [failure_reply 504, success_reply (JObj [(''data'',
       JObj [(''modhash'', JStr ''abc''), (''name'', JStr ''anna'')])])]) initial))
       [GetModhash, GetUserDetails, GetCurrentUser, GetUserDetails] initial =
     ([Fulfilled (JStr ''abc''),
       Fulfilled (JObj [(''data'', JObj [(''modhash'', JStr ''abc''), (''name'', JStr ''anna'')])]),
       Fulfilled (JStr ''anna''),
       Fulfilled (JObj [(''data'', JObj [(''modhash'', JStr ''abc''), (''name'', JStr ''anna'')])])],
      initial)"
  using identity_fetch_shared [of "scripted [failure_reply 504, success_reply (JObj [(''data'',
       JObj [(''modhash'', JStr ''abc''), (''name'', JStr ''anna'')])])]" initial
       "[GetModhash, GetUserDetails, GetCurrentUser, GetUserDetails]" initial]
  by (simp add: prod_eq_iff load_module_def split_beta userDetailsPromise_def fetch_retry fetch_fulfilled
      getJSON_me_result getJSON_me_state sent_def initial_def scripted_simps
      failure_reply_def success_reply_def failure_reply_handled success_reply_handled
      ends_504_def gateway_timeout_def member2_def property_def)

text \<open>
  Claim C7. When the identity promise is fulfilled with \<open>v\<close>, \<open>getModhash\<close> ends as the
  evaluation of \<open>v.data.modhash\<close> does and \<open>getCurrentUser\<close> as that of \<open>v.data.name\<close>:
  for an object \<open>v\<close> whose \<open>data\<close> is an object they are fulfilled with its \<open>modhash\<close> and
  \<open>name\<close> properties, and for \<open>v = undefined\<close> both are rejected with a TypeError.
\<close>

theorem getModhash_getCurrentUser_fields:
  assumes "userDetails m = Fulfilled v"
  shows "fst (getModhash m s) = complete (member2 v ''data'' ''modhash'')
       \<and> fst (getCurrentUser m s) = complete (member2 v ''data'' ''name'')
       \<and> (\<forall>kvs d. v = JObj kvs \<and> map_of kvs ''data'' = Some (JObj d) \<longrightarrow>
            fst (getModhash m s) = Fulfilled (property d ''modhash'') \<and>
            fst (getCurrentUser m s) = Fulfilled (property d ''name''))
       \<and> (v = JUndefined \<longrightarrow>
            fst (getModhash m s) = Rejected TypeError \<and>
            fst (getCurrentUser m s) = Rejected TypeError)"
  using assms
  by (auto simp: getModhash_def getCurrentUser_def getUserDetails_def member2_def property_def)

theorem getModhash_getCurrentUser_fields_witness:
  "fst (getModhash (\<lparr>userDetails = Fulfilled (JObj [(''data'',
       JObj [(''modhash'', JStr ''abc''), (''name'', JStr ''anna'')])]) \<rparr> :: resp module) initial) =
     Fulfilled (JStr ''abc'')
   \<and> fst (getCurrentUser (\<lparr>userDetails = Fulfilled (JObj [(''data'',
       JObj [(''modhash'', JStr ''abc''), (''name'', JStr ''anna'')])]) \<rparr> :: resp module) initial) =
     Fulfilled (JStr ''anna'')
   \<and> fst (getModhash (fst (load_module (scripted [failure_reply 500]) initial)) initial) =
     Rejected TypeError
   \<and> fst (getCurrentUser (fst (load_module (scripted [failure_reply 500]) initial)) initial) =
     Rejected TypeError"
  using getModhash_getCurrentUser_fields [of "(\<lparr>userDetails = Fulfilled (JObj [(''data'',
       JObj [(''modhash'', JStr ''abc''), (''name'', JStr ''anna'')])]) \<rparr> :: resp module)"
      "JObj [(''data'', JObj [(''modhash'', JStr ''abc''), (''name'', JStr ''anna'')])]" initial]
    getModhash_getCurrentUser_fields [of "fst (load_module (scripted [failure_reply 500]) initial)" JUndefined initial]
  by (simp add: property_def member2_def load_module_def userDetailsPromise_def getCache_def
      fetch_rejected_stop getJSON_me_result getJSON_me_state sent_def initial_def scripted_simps
      failure_reply_def failure_reply_handled gateway_timeout_def)

end
